theory Spec2Isabelle
  imports Main
begin

section \<open>The streaming ETL stack (cdk/lib/streaming-etl.ts)\<close>

text \<open>
  The stack is declarative: the constructor of \<open>StreamingEtl\<close> declares resources with
  literal configuration and dependency edges. Each declaration of the constructor becomes a
  definition carrying the name of the source's constant. Values that only the provisioning
  engine knows (names and references of deployed resources, the pseudo parameters
  \<open>cdk.Aws.*\<close>) are read from a record of resolved tokens.
\<close>

subsection \<open>Inputs of the constructor\<close>

record StackProps =
  props_description :: "string option"
  props_stackName :: "string option"
  props_env :: "(string \<times> string) option"
  props_tags :: "(string \<times> string) list"

text \<open>The resolved values of \<open>cdk.Aws.STACK_NAME\<close>, \<open>cdk.Aws.REGION\<close>, \<open>cdk.Aws.ACCOUNT_ID\<close>,
  \<open>cdk.Aws.PARTITION\<close>, \<open>bucket.bucketName\<close>, \<open>bucket.bucketArn\<close>, \<open>stream.streamName\<close>,
  \<open>kdaRole.roleArn\<close>, \<open>kdaApp.ref\<close> and \<open>instance.instance.logicalId\<close>.\<close>

record Tokens =
  STACK_NAME :: string
  REGION :: string
  ACCOUNT_ID :: string
  PARTITION :: string
  bucketName :: string
  bucketArn :: string
  streamName :: string
  kdaRole_roleArn :: string
  kdaApp_ref :: string
  instance_logicalId :: string

subsection \<open>Durations\<close>

datatype Duration = Days nat | Minutes nat

fun toSeconds :: "Duration \<Rightarrow> nat" where
  "toSeconds (Days n) = n * 86400"
| "toSeconds (Minutes n) = n * 60"

subsection \<open>The bucket (lines 24-39)\<close>

datatype RemovalPolicy = DESTROY | RETAIN | SNAPSHOT

datatype BlockPublicAccess = BLOCK_ALL | BLOCK_ACLS

record BucketMetrics =
  metrics_id :: string

record LifecycleRule =
  abortIncompleteMultipartUploadAfter :: "Duration option"

text \<open>An optional property of the source is an \<open>option\<close>: \<open>None\<close> is the property left out,
  where the library's default applies (for \<open>removalPolicy\<close> of a bucket: retain).\<close>

record BucketProps =
  versioned :: "bool option"
  removalPolicy :: "RemovalPolicy option"
  blockPublicAccess :: "BlockPublicAccess option"
  metrics :: "BucketMetrics list"
  lifecycleRules :: "LifecycleRule list"

definition bucket :: BucketProps where
  "bucket =
     \<lparr> versioned = Some True,
       removalPolicy = Some DESTROY,
       blockPublicAccess = Some BLOCK_ALL,
       metrics = [\<lparr> metrics_id = ''EntireBucket'' \<rparr>],
       lifecycleRules = [\<lparr> abortIncompleteMultipartUploadAfter = Some (Days 7) \<rparr>] \<rparr>"

text \<open>The policy a bucket is deleted under: the declared one, or the library's default.\<close>

definition effectiveRemovalPolicy :: "BucketProps \<Rightarrow> RemovalPolicy" where
  "effectiveRemovalPolicy b = (case removalPolicy b of None \<Rightarrow> RETAIN | Some p \<Rightarrow> p)"

text \<open>\<open>new EmptyBucketOnDelete(this, 'EmptyBucket', { bucket: bucket })\<close>: the construct is
  declared on the bucket; its class is not part of this file.\<close>

record EmptyBucketOnDeleteProps =
  empty_bucket :: BucketProps

definition EmptyBucket :: EmptyBucketOnDeleteProps where
  "EmptyBucket = \<lparr> empty_bucket = bucket \<rparr>"

subsection \<open>The input stream (lines 50-52)\<close>

record StreamProps =
  shardCount :: "int option"

definition stream :: StreamProps where
  "stream = \<lparr> shardCount = Some 16 \<rparr>"

subsection \<open>The Flink application (lines 81-130)\<close>

datatype PropertyValue = Str string | Bool bool

record PropertyGroup =
  propertyGroupId :: string
  propertyMap :: "(string \<times> PropertyValue) list"

record MonitoringConfiguration =
  logLevel :: string
  metricsLevel :: string
  monitoring_configurationType :: string

record ParallelismConfiguration =
  autoScalingEnabled :: bool
  parallelism :: int
  parallelismPerKpu :: int
  parallelism_configurationType :: string

record CheckpointConfiguration =
  checkpoint_configurationType :: string
  checkpointInterval :: "int option"
  minPauseBetweenCheckpoints :: "int option"
  checkpointingEnabled :: "bool option"

record FlinkApplicationConfiguration =
  monitoringConfiguration :: MonitoringConfiguration
  parallelismConfiguration :: ParallelismConfiguration
  checkpointConfiguration :: CheckpointConfiguration

record S3ContentLocation =
  content_bucketArn :: string
  fileKey :: string

record ApplicationCodeConfiguration =
  s3ContentLocation :: S3ContentLocation
  codeContentType :: string

record ApplicationConfiguration =
  propertyGroups :: "PropertyGroup list"
  flinkApplicationConfiguration :: FlinkApplicationConfiguration
  snapshotsEnabled :: bool
  applicationCodeConfiguration :: ApplicationCodeConfiguration

record CfnApplicationV2Props =
  runtimeEnvironment :: string
  serviceExecutionRole :: string
  applicationName :: string
  applicationConfiguration :: ApplicationConfiguration

text \<open>The declaration \<open>new kda.CfnApplicationV2(this, 'KdaApplication', {...})\<close> of lines
  81-130, with the object given as \<open>checkpointConfiguration\<close> as a parameter. The constructor
  hands that object to the declaration as it is: no statement compares its fields or
  raises.\<close>

definition kdaAppWith :: "CheckpointConfiguration \<Rightarrow> Tokens \<Rightarrow> CfnApplicationV2Props" where
  "kdaAppWith checkpoint tok =
     \<lparr> runtimeEnvironment = ''FLINK-1_8'',
       serviceExecutionRole = kdaRole_roleArn tok,
       applicationName = STACK_NAME tok,
       applicationConfiguration =
         \<lparr> propertyGroups =
             [\<lparr> propertyGroupId = ''FlinkApplicationProperties'',
                propertyMap =
                  [(''OutputBucket'', Str (''s3://'' @ bucketName tok @ ''/streaming-etl-output/'')),
                   (''ParquetConversion'', Bool True),
                   (''InputKinesisStream'', Str (streamName tok))] \<rparr>],
           flinkApplicationConfiguration =
             \<lparr> monitoringConfiguration =
                 \<lparr> logLevel = ''INFO'',
                   metricsLevel = ''TASK'',
                   monitoring_configurationType = ''CUSTOM'' \<rparr>,
               parallelismConfiguration =
                 \<lparr> autoScalingEnabled = False,
                   parallelism = 2,
                   parallelismPerKpu = 1,
                   parallelism_configurationType = ''CUSTOM'' \<rparr>,
               checkpointConfiguration = checkpoint \<rparr>,
           snapshotsEnabled = False,
           applicationCodeConfiguration =
             \<lparr> s3ContentLocation =
                 \<lparr> content_bucketArn = bucketArn tok,
                   fileKey = ''target/amazon-kinesis-analytics-streaming-etl-1.0-SNAPSHOT.jar'' \<rparr>,
               codeContentType = ''ZIPFILE'' \<rparr> \<rparr> \<rparr>"


text \<open>Lines 110-115: the checkpoint configuration the constructor writes, and \<open>kdaApp\<close>, the
  application it declares with it.\<close>

definition checkpointConfiguration_110 :: CheckpointConfiguration where
  "checkpointConfiguration_110 =
     \<lparr> checkpoint_configurationType = ''CUSTOM'',
       checkpointInterval = Some 60000,
       minPauseBetweenCheckpoints = Some 60000,
       checkpointingEnabled = Some True \<rparr>"

definition kdaApp :: "Tokens \<Rightarrow> CfnApplicationV2Props" where
  "kdaApp tok = kdaAppWith checkpointConfiguration_110 tok"


subsection \<open>The security group (lines 152-157)\<close>

text \<open>\<open>Peer.anyIpv4()\<close> is the CIDR block 0.0.0.0/0; a security group used as a peer stands
  for its members. \<open>Port.tcp(p)\<close> is the single TCP port \<open>p\<close>; \<open>Port.allTraffic()\<close> is every
  protocol and port.\<close>

datatype Peer = anyIpv4 | SecurityGroupPeer string

datatype Protocol = TCP | UDP | ICMP | ALL_PROTOCOLS

record Port =
  protocol :: Protocol
  fromPort :: "nat option"
  toPort :: "nat option"

definition tcp :: "nat \<Rightarrow> Port" where
  "tcp p = \<lparr> protocol = TCP, fromPort = Some p, toPort = Some p \<rparr>"

definition allTraffic :: Port where
  "allTraffic = \<lparr> protocol = ALL_PROTOCOLS, fromPort = None, toPort = None \<rparr>"

record SecurityGroup =
  sg_id :: string
  sg_vpc :: string
  ingressRules :: "(Peer \<times> Port) list"

definition addIngressRule :: "SecurityGroup \<Rightarrow> Peer \<Rightarrow> Port \<Rightarrow> SecurityGroup" where
  "addIngressRule g peer port = g\<lparr> ingressRules := ingressRules g @ [(peer, port)] \<rparr>"

definition sg :: SecurityGroup where
  "sg =
     (let sg0 = \<lparr> sg_id = ''SecurityGroup'', sg_vpc = ''VPC'', ingressRules = [] \<rparr>;
          sg1 = addIngressRule sg0 anyIpv4 (tcp 22);
          sg2 = addIngressRule sg1 (SecurityGroupPeer (sg_id sg1)) allTraffic
      in sg2)"

text \<open>The traffic a rule list admits. A packet comes from an IPv4 address, which may belong
  to a member of security groups, and goes to a port under a protocol.\<close>

record Packet =
  fromGroups :: "string list"
  packetProtocol :: Protocol
  packetPort :: nat

fun peerMatches :: "Peer \<Rightarrow> Packet \<Rightarrow> bool" where
  "peerMatches anyIpv4 pk = True"
| "peerMatches (SecurityGroupPeer g) pk = (g \<in> set (fromGroups pk))"

definition portMatches :: "Port \<Rightarrow> Packet \<Rightarrow> bool" where
  "portMatches port pk =
     (protocol port = ALL_PROTOCOLS \<or>
      (protocol port = packetProtocol pk \<and>
       (case (fromPort port, toPort port) of
          (Some lo, Some hi) \<Rightarrow> lo \<le> packetPort pk \<and> packetPort pk \<le> hi
        | _ \<Rightarrow> True)))"

definition admits :: "SecurityGroup \<Rightarrow> Packet \<Rightarrow> bool" where
  "admits g pk = list_ex (\<lambda>(peer, port). peerMatches peer pk \<and> portMatches port pk) (ingressRules g)"

subsection \<open>The user data of the producer instance (lines 186-193 and 212)\<close>

text \<open>\<open>UserData.forLinux()\<close> is a mutable object holding script lines; \<open>addCommands\<close>
  appends to it and \<open>render\<close> puts the shebang line first. The instance keeps a reference to
  the object and renders it when the template is synthesized, so the object lives in a store
  and the instance holds its address.\<close>

record UserData =
  lines :: "string list"

definition forLinux :: UserData where
  "forLinux = \<lparr> lines = [] \<rparr>"

definition addCommands :: "UserData \<Rightarrow> string list \<Rightarrow> UserData" where
  "addCommands u cmds = u\<lparr> lines := lines u @ cmds \<rparr>"

definition render :: "UserData \<Rightarrow> string list" where
  "render u = ''#!/bin/bash'' # lines u"

type_synonym ref = nat

type_synonym store = "ref \<Rightarrow> UserData option"

definition replayCopyCommand :: "Tokens \<Rightarrow> string" where
  \<open>replayCopyCommand tok =
     ''aws s3 cp --recursive --no-progress --exclude '*' --include 'amazon-kinesis-replay-*.jar' 's3://''
       @ bucketName tok @ ''/target/' .''\<close>

definition installCommand :: string where
  "installCommand = ''yum install -y tmux jq java-11-amazon-corretto-headless''"

definition startCommand :: "Tokens \<Rightarrow> string" where
  \<open>startCommand tok =
     ''aws --region '' @ REGION tok @ '' kinesisanalyticsv2 start-application --application-name ''
       @ kdaApp_ref tok
       @ '' --run-configuration '{ "ApplicationRestoreConfiguration": { "ApplicationRestoreType": "SKIP_RESTORE_FROM_SNAPSHOT" } }''
       @ [CHR 0x27]\<close>

definition copyCommand :: "Tokens \<Rightarrow> string" where
  \<open>copyCommand tok = ''su ssm-user -l -c "'' @ replayCopyCommand tok @ ''"''\<close>

definition signalCommand :: "Tokens \<Rightarrow> string" where
  "signalCommand tok =
     ''/opt/aws/bin/cfn-signal -e $? --stack '' @ STACK_NAME tok
       @ '' --resource '' @ instance_logicalId tok @ '' --region '' @ REGION tok"

definition userData_ref :: ref where
  "userData_ref = 0"

text \<open>Lines 188-193: the object is created and gets its first three commands.\<close>

definition store_193 :: "Tokens \<Rightarrow> store" where
  "store_193 tok =
     Map.empty(userData_ref \<mapsto> addCommands forLinux [installCommand, startCommand tok, copyCommand tok])"

subsection \<open>The producer instance (lines 195-213)\<close>

record InstanceProps =
  instance_vpc :: string
  instanceType :: "string \<times> string"
  machineImage :: string
  instanceName :: string
  securityGroup :: SecurityGroup
  userData :: ref
  instance_role :: string
  resourceSignalTimeout :: "Duration option"

definition "instance" :: "Tokens \<Rightarrow> InstanceProps" where
  "instance tok =
     \<lparr> instance_vpc = ''VPC'',
       instanceType = (''C5N'', ''LARGE''),
       machineImage = ''AMAZON_LINUX_2'',
       instanceName = STACK_NAME tok @ ''/ProducerInstance'',
       securityGroup = sg,
       userData = userData_ref,
       instance_role = ''ReplayRole'',
       resourceSignalTimeout = Some (Minutes 5) \<rparr>"

text \<open>Line 212: after the instance is declared, the signal command is appended to the same
  object.\<close>

definition store_212 :: "Tokens \<Rightarrow> store" where
  "store_212 tok =
     (case store_193 tok userData_ref of
        None \<Rightarrow> store_193 tok
      | Some u \<Rightarrow> (store_193 tok)(userData_ref \<mapsto> addCommands u [signalCommand tok]))"

text \<open>The script the instance boots with: its user data, rendered from the store as it is
  at the end of the constructor.\<close>

definition bootScript :: "Tokens \<Rightarrow> string list" where
  "bootScript tok =
     (case store_212 tok (userData (instance tok)) of None \<Rightarrow> [] | Some u \<Rightarrow> render u)"

subsection \<open>The dashboard (lines 219-359)\<close>

record Metric =
  namespace :: string
  metricName :: string
  dimensions :: "(string \<times> string) list"
  period :: Duration
  statistic :: string

text \<open>\<open>metric.with({ statistic: s })\<close>: a copy of the metric with another statistic.\<close>

definition with_statistic :: "Metric \<Rightarrow> string \<Rightarrow> Metric" where
  "with_statistic m s = m\<lparr> statistic := s \<rparr>"

text \<open>\<open>cdk.Fn.split\<close> and \<open>cdk.Fn.join\<close> on resolved strings, for a delimiter of one
  character.\<close>

fun Fn_split :: "char \<Rightarrow> string \<Rightarrow> string list" where
  "Fn_split d [] = [[]]"
| "Fn_split d (c # cs) =
     (if c = d then [] # Fn_split d cs
      else (case Fn_split d cs of [] \<Rightarrow> [[c]] | w # ws \<Rightarrow> (c # w) # ws))"

fun Fn_join :: "string \<Rightarrow> string list \<Rightarrow> string" where
  "Fn_join sep [] = []"
| "Fn_join sep [w] = w"
| "Fn_join sep (w # ws) = w @ sep @ Fn_join sep ws"

definition incomingRecords :: "Tokens \<Rightarrow> Metric" where
  "incomingRecords tok =
     \<lparr> namespace = ''AWS/Kinesis'', metricName = ''IncomingRecords'',
       dimensions = [(''StreamName'', streamName tok)],
       period = Minutes 1, statistic = ''sum'' \<rparr>"

definition incomingBytes :: "Tokens \<Rightarrow> Metric" where
  "incomingBytes tok =
     \<lparr> namespace = ''AWS/Kinesis'', metricName = ''IncomingBytes'',
       dimensions = [(''StreamName'', streamName tok)],
       period = Minutes 1, statistic = ''sum'' \<rparr>"

definition outgoingRecords :: "Tokens \<Rightarrow> Metric" where
  "outgoingRecords tok =
     \<lparr> namespace = ''AWS/Kinesis'', metricName = ''GetRecords.Records'',
       dimensions = [(''StreamName'', streamName tok)],
       period = Minutes 1, statistic = ''sum'' \<rparr>"

definition outgoingBytes :: "Tokens \<Rightarrow> Metric" where
  "outgoingBytes tok =
     \<lparr> namespace = ''AWS/Kinesis'', metricName = ''GetRecords.Bytes'',
       dimensions = [(''StreamName'', streamName tok)],
       period = Minutes 1, statistic = ''sum'' \<rparr>"

definition millisBehindLatest :: "Tokens \<Rightarrow> Metric" where
  "millisBehindLatest tok =
     \<lparr> namespace = ''AWS/KinesisAnalytics'', metricName = ''millisBehindLatest'',
       dimensions =
         [(''Id'', Fn_join ''_'' (Fn_split (CHR ''-'') (streamName tok))),
          (''Application'', kdaApp_ref tok),
          (''Flow'', ''Input'')],
       period = Minutes 1, statistic = ''max'' \<rparr>"

definition bytesUploaded :: "Tokens \<Rightarrow> Metric" where
  "bytesUploaded tok =
     \<lparr> namespace = ''AWS/S3'', metricName = ''BytesUploaded'',
       dimensions = [(''BucketName'', bucketName tok), (''FilterId'', ''EntireBucket'')],
       period = Minutes 1, statistic = ''sum'' \<rparr>"

definition putRequests :: "Tokens \<Rightarrow> Metric" where
  "putRequests tok =
     \<lparr> namespace = ''AWS/S3'', metricName = ''PutRequests'',
       dimensions = [(''BucketName'', bucketName tok), (''FilterId'', ''EntireBucket'')],
       period = Minutes 1, statistic = ''sum'' \<rparr>"

record YAxisProps =
  axis_label :: "string option"
  showUnits :: "bool option"
  axis_min :: "int option"

record GraphWidget =
  left :: "Metric list"
  right :: "Metric list"
  width :: nat
  title :: string
  leftYAxis :: "YAxisProps option"
  rightYAxis :: "YAxisProps option"

text \<open>A dashboard is its name and its widgets, top to bottom; \<open>addWidgets\<close> appends.\<close>

record Dashboard =
  dashboardName :: string
  widgets :: "GraphWidget list"

definition addWidgets :: "Dashboard \<Rightarrow> GraphWidget list \<Rightarrow> Dashboard" where
  "addWidgets d ws = d\<lparr> widgets := widgets d @ ws \<rparr>"

text \<open>The axis properties \<open>{ min: 0 }\<close>.\<close>

definition min0 :: YAxisProps where
  "min0 = \<lparr> axis_label = None, showUnits = None, axis_min = Some 0 \<rparr>"

definition dashboard :: "Tokens \<Rightarrow> Dashboard" where
  "dashboard tok =
     (let d0 = \<lparr> dashboardName = STACK_NAME tok, widgets = [] \<rparr>;
          d1 = addWidgets d0
                 [\<lparr> left = [incomingRecords tok], right = [incomingBytes tok], width = 24,
                    title = ''Kinesis data stream (incoming)'',
                    leftYAxis = Some min0, rightYAxis = Some min0 \<rparr>];
          d2 = addWidgets d1
                 [\<lparr> left = [outgoingRecords tok], right = [outgoingBytes tok], width = 24,
                    title = ''Kinesis data stream (outgoing)'',
                    leftYAxis = Some min0, rightYAxis = Some min0 \<rparr>];
          d3 = addWidgets d2
                 [\<lparr> left = [millisBehindLatest tok, with_statistic (millisBehindLatest tok) ''avg''],
                    right = [], width = 24,
                    title = ''Flink consumer lag'',
                    leftYAxis = Some \<lparr> axis_label = Some ''milliseconds'', showUnits = Some False,
                                       axis_min = Some 0 \<rparr>,
                    rightYAxis = None \<rparr>];
          d4 = addWidgets d3
                 [\<lparr> left = [putRequests tok], right = [bytesUploaded tok], width = 24,
                    title = ''Amazon S3 (incoming)'',
                    leftYAxis = Some min0, rightYAxis = Some min0 \<rparr>]
      in d4)"

subsection \<open>Dependency edges declared by the constructor\<close>

text \<open>Resources are named by their construct ids. A resource depends on a wait condition of
  \<open>BuildArtifacts\<close> (a readiness gate) or on another resource.\<close>

datatype Dep = OnGate string | OnResource string

text \<open>The explicit edges: \<open>kdaApp.addDependsOn(artifacts.consumerBuildSuccessWaitCondition)\<close>
  (line 139) and \<open>instance.node.addDependency(artifacts.producerBuildSuccessWaitCondition)\<close>
  (line 213).\<close>

definition dependsOn :: "(string \<times> Dep list) list" where
  "dependsOn =
     [(''KdaApplication'', [OnGate ''consumerBuildSuccessWaitCondition'']),
      (''ProducerInstance'', [OnGate ''producerBuildSuccessWaitCondition''])]"

text \<open>The implicit edges: a resource whose properties hold a reference to another resource
  (its name, ARN or \<open>ref\<close>) is deployed after it. The instance refers to the application
  through \<open>kdaApp.ref\<close> in its start command (line 191) and to the bucket through the copy
  command (line 186).\<close>

definition references :: "(string \<times> string list) list" where
  "references =
     [(''Bucket'', []),
      (''EmptyBucket'', [''Bucket'']),
      (''BuildArtifacts'', [''Bucket'']),
      (''InputStream'', []),
      (''KdaLogGroup'', []),
      (''KdaLogStream'', [''KdaLogGroup'']),
      (''KdaRole'', []),
      (''KdaApplication'', [''KdaRole'', ''Bucket'', ''InputStream'']),
      (''KdsFlinkProducerLogging'', [''KdaApplication'', ''KdaLogGroup'', ''KdaLogStream'']),
      (''VPC'', []),
      (''SecurityGroup'', [''VPC'']),
      (''ReplayRole'', [''InputStream'', ''Bucket'']),
      (''ProducerInstance'', [''VPC'', ''SecurityGroup'', ''ReplayRole'', ''KdaApplication'', ''Bucket'']),
      (''Dashboard'', [''InputStream'', ''KdaApplication'', ''Bucket''])]"

definition lookupList :: "(string \<times> 'a list) list \<Rightarrow> string \<Rightarrow> 'a list" where
  "lookupList t r = (case map_of t r of None \<Rightarrow> [] | Some xs \<Rightarrow> xs)"

definition dependencies :: "string \<Rightarrow> Dep list" where
  "dependencies r = lookupList dependsOn r @ map OnResource (lookupList references r)"

subsection \<open>The stack\<close>

record Stack =
  stack_id :: string
  stack_props :: "StackProps option"
  templateDescription :: string
  stack_bucket :: BucketProps
  stack_emptyBucket :: EmptyBucketOnDeleteProps
  stack_stream :: StreamProps
  stack_kdaApp :: CfnApplicationV2Props
  stack_sg :: SecurityGroup
  stack_instance :: InstanceProps
  stack_bootScript :: "string list"
  stack_dashboard :: Dashboard
  stack_dependencies :: "string \<Rightarrow> Dep list"

text \<open>The constructor \<open>StreamingEtl(scope, id, props)\<close>, with the tokens as the provisioning
  engine resolves them for the deployment.\<close>

definition StreamingEtl :: "string \<Rightarrow> StackProps option \<Rightarrow> Tokens \<Rightarrow> Stack" where
  "StreamingEtl ident props tok =
     \<lparr> stack_id = ident,
       stack_props = props,
       templateDescription = ''Creates a sample streaming ETL pipeline based on Apache Flink and Amazon Kinesis Data Analytics that reads data from a Kinesis data stream and persists it to Amazon S3 (shausma-kda-streaming-etl)'',
       stack_bucket = bucket,
       stack_emptyBucket = EmptyBucket,
       stack_stream = stream,
       stack_kdaApp = kdaApp tok,
       stack_sg = sg,
       stack_instance = instance tok,
       stack_bootScript = bootScript tok,
       stack_dashboard = dashboard tok,
       stack_dependencies = dependencies \<rparr>"

section \<open>The collaborators the stack is deployed by\<close>

subsection \<open>Readiness gate\<close>

text \<open>Modelled from the spec: the wait conditions are declared by \<open>BuildArtifacts\<close>
  (\<open>./build-artifacts\<close>), which is not among the sources, and signalled by the build; the gate
  follows sections 3 and 4.1 of the specification. \<open>signal\<close> returns its result and the gate
  after the call.\<close>

datatype GateState = WAITING | SIGNALED_SUCCESS | SIGNALED_FAILURE | TIMED_OUT

datatype Outcome = Success | Failure | TimedOut

datatype SignalError = AlreadySignaled

record Gate =
  gateName :: string
  gateTimeout :: nat
  gateState :: GateState
  gateReason :: string

definition create :: "string \<Rightarrow> nat \<Rightarrow> Gate" where
  "create name timeout =
     \<lparr> gateName = name, gateTimeout = timeout, gateState = WAITING, gateReason = [] \<rparr>"

definition terminal :: "Gate \<Rightarrow> bool" where
  "terminal g = (gateState g \<noteq> WAITING)"

definition signal :: "Gate \<Rightarrow> bool \<Rightarrow> string \<Rightarrow> (SignalError + unit) \<times> Gate" where
  "signal g success reason =
     (if terminal g then (Inl AlreadySignaled, g)
      else (Inr (),
            g\<lparr> gateState := (if success then SIGNALED_SUCCESS else SIGNALED_FAILURE),
               gateReason := reason \<rparr>))"

text \<open>Modelled from the spec: the deadline passing with no signal received (section 3).\<close>

definition expire :: "Gate \<Rightarrow> Gate" where
  "expire g = (if terminal g then g else g\<lparr> gateState := TIMED_OUT \<rparr>)"

text \<open>Modelled from the spec: \<open>await\<close> of section 4.1; \<open>None\<close> stands for the call still
  blocking on a waiting gate.\<close>

definition await :: "Gate \<Rightarrow> Outcome option" where
  "await g =
     (case gateState g of
        WAITING \<Rightarrow> None
      | SIGNALED_SUCCESS \<Rightarrow> Some Success
      | SIGNALED_FAILURE \<Rightarrow> Some Failure
      | TIMED_OUT \<Rightarrow> Some TimedOut)"

definition outcomeOf :: "bool \<Rightarrow> Outcome" where
  "outcomeOf success = (if success then Success else Failure)"

subsection \<open>Provisioning engine\<close>

text \<open>Modelled from the spec: the engine that activates the declared resources is an external
  collaborator. Following sections 4.2, 5 and 6 of the specification, a resource is Pending
  until the engine begins its activation, which it may do only when every gate the resource
  depends on is SIGNALED_SUCCESS and every resource it depends on is Ready; an activation in
  progress ends Ready or Failed; a Pending resource with a failed or timed-out gate, or a
  Failed or Blocked resource, among its dependencies is reported Blocked. An event that is
  not enabled in a state has no successor (\<open>None\<close>).\<close>

datatype Status = Pending | InProgress | Ready | Failed | Blocked

record Engine =
  gates :: "string \<Rightarrow> Gate"
  status :: "string \<Rightarrow> Status"

datatype Event =
    Signal string bool string
  | Deadline string
  | Begin string
  | Complete string
  | Fail string
  | Block string

fun satisfied :: "Engine \<Rightarrow> Dep \<Rightarrow> bool" where
  "satisfied s (OnGate g) = (gateState (gates s g) = SIGNALED_SUCCESS)"
| "satisfied s (OnResource r) = (status s r = Ready)"

fun broken :: "Engine \<Rightarrow> Dep \<Rightarrow> bool" where
  "broken s (OnGate g) =
     (gateState (gates s g) = SIGNALED_FAILURE \<or> gateState (gates s g) = TIMED_OUT)"
| "broken s (OnResource r) = (status s r = Failed \<or> status s r = Blocked)"

fun step :: "(string \<Rightarrow> Dep list) \<Rightarrow> Engine \<Rightarrow> Event \<Rightarrow> Engine option" where
  "step deps s (Signal g success reason) =
     Some (s\<lparr> gates := (gates s)(g := snd (signal (gates s g) success reason)) \<rparr>)"
| "step deps s (Deadline g) =
     Some (s\<lparr> gates := (gates s)(g := expire (gates s g)) \<rparr>)"
| "step deps s (Begin r) =
     (if status s r = Pending \<and> list_all (satisfied s) (deps r)
      then Some (s\<lparr> status := (status s)(r := InProgress) \<rparr>) else None)"
| "step deps s (Complete r) =
     (if status s r = InProgress
      then Some (s\<lparr> status := (status s)(r := Ready) \<rparr>) else None)"
| "step deps s (Fail r) =
     (if status s r = InProgress
      then Some (s\<lparr> status := (status s)(r := Failed) \<rparr>) else None)"
| "step deps s (Block r) =
     (if status s r = Pending \<and> list_ex (broken s) (deps r)
      then Some (s\<lparr> status := (status s)(r := Blocked) \<rparr>) else None)"

fun run :: "(string \<Rightarrow> Dep list) \<Rightarrow> Engine \<Rightarrow> Event list \<Rightarrow> Engine option" where
  "run deps s [] = Some s"
| "run deps s (e # es) = (case step deps s e of None \<Rightarrow> None | Some s' \<Rightarrow> run deps s' es)"

text \<open>Modelled from the spec: a deployment attempt starts with every gate created and
  waiting (each with its own deadline) and every resource Pending.\<close>

definition initial :: "(string \<Rightarrow> nat) \<Rightarrow> Engine" where
  "initial timeouts = \<lparr> gates = (\<lambda>g. create g (timeouts g)), status = (\<lambda>r. Pending) \<rparr>"

text \<open>A resource has begun activation when it is in progress or has ended Ready or Failed.\<close>

fun begun :: "Status \<Rightarrow> bool" where
  "begun Pending = False"
| "begun InProgress = True"
| "begun Ready = True"
| "begun Failed = True"
| "begun Blocked = False"

subsection \<open>Running the boot script\<close>

text \<open>The user data is a shell script of the sources. Its lines are run by \<open>/bin/bash\<close>, the
  interpreter the shebang line names; the definitions below are the shell's rules for the
  fragment of the language the script is written in, and refuse a script outside it.

  Outside quotes the characters of \<open>metaChars\<close> are control operators, redirections,
  expansions, patterns, assignments, escapes or comment starts; \<open>$\<close> is supported only as
  \<open>$?\<close>. Inside single quotes every character is literal; inside double quotes every
  character but \<open>$\<close>, the backquote and the backslash is. \<open>scan\<close> follows the quoting through
  a line: the result is the quoting state at the end of the line, or \<open>None\<close> for a line that
  uses something outside the fragment.\<close>

datatype Quoting = Unquoted | InSingle | InDouble | AfterDollar

definition metaChars :: string where
  "metaChars = '';&|<>#*?[]{}~!='' @ [CHR 0x28, CHR 0x29, CHR 0x5C, CHR 0x60, CHR 0x09, CHR 0x0A]"

fun scan :: "Quoting \<Rightarrow> string \<Rightarrow> Quoting option" where
  "scan q [] = Some q"
| "scan Unquoted (c # cs) =
     (if c = CHR 0x27 then scan InSingle cs
      else if c = CHR 0x22 then scan InDouble cs
      else if c = CHR ''$'' then scan AfterDollar cs
      else if c \<in> set metaChars then None
      else scan Unquoted cs)"
| "scan InSingle (c # cs) =
     (if c = CHR 0x27 then scan Unquoted cs else scan InSingle cs)"
| "scan InDouble (c # cs) =
     (if c = CHR 0x22 then scan Unquoted cs
      else if c = CHR ''$'' \<or> c = CHR 0x60 \<or> c = CHR 0x5C then None
      else scan InDouble cs)"
| "scan AfterDollar (c # cs) =
     (if c = CHR ''?'' then scan Unquoted cs else None)"

text \<open>What a line is to the shell. A line of blanks or a comment runs nothing. \<open>set -e\<close> and
  \<open>set +e\<close> switch the error option, under which the shell stops at the first command that
  ends with a status other than 0. \<open>exit\<close> ends the script. A line whose first word is
  another reserved word or a builtin that changes the control flow is outside the fragment.
  Any other line that scans to the end with every quote closed is a simple command: one
  program run with its arguments.\<close>

datatype Line = Blank | SetErrexit bool | ExitShell | Command | NotInFragment

definition isBlank :: "char \<Rightarrow> bool" where
  "isBlank c = (c = CHR '' '' \<or> c = CHR 0x09)"

definition reservedWords :: "string list" where
  "reservedWords =
     [''if'', ''then'', ''else'', ''elif'', ''fi'', ''for'', ''while'', ''until'', ''do'', ''done'',
      ''case'', ''esac'', ''select'', ''function'', ''time'', ''coproc'', ''return'', ''break'',
      ''continue'', ''exec'', ''eval'', ''trap'', ''source'', ''.'', '':'', ''shopt'', ''kill'',
      ''wait'', ''alias'', ''unset'', ''export'', ''declare'', ''local'', ''readonly'', ''cd'']"

definition classify :: "string \<Rightarrow> Line" where
  "classify l =
     (let body = dropWhile isBlank l;
          word = takeWhile (\<lambda>c. \<not> isBlank c) body;
          args = dropWhile isBlank (dropWhile (\<lambda>c. \<not> isBlank c) body)
      in if body = [] \<or> take 1 body = ''#'' then Blank
         else if word = ''set'' then
           (if args = ''-e'' then SetErrexit True
            else if args = ''+e'' then SetErrexit False
            else NotInFragment)
         else if word = ''exit'' then ExitShell
         else if word \<in> set reservedWords then NotInFragment
         else if scan Unquoted body = Some Unquoted then Command
         else NotInFragment)"

text \<open>Running the lines. What a program does is outside the script: the environment gives
  the exit status of each command line. \<open>$?\<close> in a line stands for the exit status of the
  command run last before it (0 at the start; \<open>set\<close> leaves 0). The trace pairs each
  command that ran with the value of \<open>$?\<close> it ran with. \<open>errexit\<close> is the error option.\<close>

datatype ShellError = Unsupported string

fun runLines ::
  "(string \<Rightarrow> nat) \<Rightarrow> bool \<Rightarrow> nat \<Rightarrow> string list \<Rightarrow> ShellError + (string \<times> nat) list" where
  "runLines exit errexit st [] = Inr []"
| "runLines exit errexit st (l # ls) =
     (case classify l of
        Blank \<Rightarrow> runLines exit errexit st ls
      | SetErrexit b \<Rightarrow> runLines exit b 0 ls
      | ExitShell \<Rightarrow> Inr []
      | NotInFragment \<Rightarrow> Inl (Unsupported l)
      | Command \<Rightarrow>
          (if errexit \<and> exit l \<noteq> 0 then Inr [(l, st)]
           else (case runLines exit errexit (exit l) ls of
                   Inl e \<Rightarrow> Inl e
                 | Inr tr \<Rightarrow> Inr ((l, st) # tr))))"

text \<open>The script starts with the shebang line of \<open>render\<close>, which names the shell with no
  option: the error option is off at the start.\<close>

definition runScript :: "(string \<Rightarrow> nat) \<Rightarrow> string list \<Rightarrow> ShellError + (string \<times> nat) list" where
  "runScript exit script =
     (case script of
        [] \<Rightarrow> Inr []
      | shebang # ls \<Rightarrow>
          if shebang = ''#!/bin/bash'' then runLines exit False 0 ls
          else Inl (Unsupported shebang))"

text \<open>The names the provisioning engine resolves the tokens to are made of characters that
  mean nothing to the shell: no blank, quote, \<open>$\<close> or character of \<open>metaChars\<close>. (Regions,
  stack names, bucket names, application names and logical ids are letters, digits, hyphens
  and dots.)\<close>

definition nameChar :: "char \<Rightarrow> bool" where
  "nameChar c =
     (c \<notin> set metaChars \<and> c \<noteq> CHR 0x27 \<and> c \<noteq> CHR 0x22 \<and> c \<noteq> CHR ''$'' \<and> c \<noteq> CHR '' '')"

definition shellSafe :: "Tokens \<Rightarrow> bool" where
  "shellSafe tok =
     (list_all nameChar (REGION tok) \<and> list_all nameChar (STACK_NAME tok) \<and>
      list_all nameChar (bucketName tok) \<and> list_all nameChar (kdaApp_ref tok) \<and>
      list_all nameChar (instance_logicalId tok))"

subsection \<open>Checkpoint policies\<close>


subsection \<open>Options and deployments\<close>

text \<open>The options of the configuration surface, read off a stack.\<close>

definition flinkConfiguration :: "Stack \<Rightarrow> FlinkApplicationConfiguration" where
  "flinkConfiguration st = flinkApplicationConfiguration (applicationConfiguration (stack_kdaApp st))"

definition optShardCount :: "Stack \<Rightarrow> int option" where
  "optShardCount st = shardCount (stack_stream st)"

definition optCheckpointInterval :: "Stack \<Rightarrow> int option" where
  "optCheckpointInterval st = checkpointInterval (checkpointConfiguration (flinkConfiguration st))"

definition optMinimumPause :: "Stack \<Rightarrow> int option" where
  "optMinimumPause st = minPauseBetweenCheckpoints (checkpointConfiguration (flinkConfiguration st))"

definition optParallelism :: "Stack \<Rightarrow> int" where
  "optParallelism st = parallelism (parallelismConfiguration (flinkConfiguration st))"

definition optLogLevel :: "Stack \<Rightarrow> string" where
  "optLogLevel st = logLevel (monitoringConfiguration (flinkConfiguration st))"

definition optMetricsLevel :: "Stack \<Rightarrow> string" where
  "optMetricsLevel st = metricsLevel (monitoringConfiguration (flinkConfiguration st))"

definition optSnapshotsEnabled :: "Stack \<Rightarrow> bool" where
  "optSnapshotsEnabled st = snapshotsEnabled (applicationConfiguration (stack_kdaApp st))"

text \<open>An option is overridable per deployment when two deployments of the stack (two choices
  of the constructor's arguments and of the resolved tokens) can differ in it.\<close>

definition overridable :: "(Stack \<Rightarrow> 'a) \<Rightarrow> bool" where
  "overridable opt =
     (\<exists>ident props tok ident' props' tok'.
        opt (StreamingEtl ident props tok) \<noteq> opt (StreamingEtl ident' props' tok'))"

subsection \<open>Reading a widget\<close>

text \<open>The distinct metrics a widget plots (two statistics of one metric are one metric), and
  the lower bound of an axis.\<close>

definition metricNames :: "GraphWidget \<Rightarrow> string list" where
  "metricNames w = remdups (map metricName (left w @ right w))"

definition lowerBound :: "YAxisProps option \<Rightarrow> int option" where
  "lowerBound a = (case a of None \<Rightarrow> None | Some p \<Rightarrow> axis_min p)"

definition nonNegative :: "int option \<Rightarrow> bool" where
  "nonNegative b = (case b of None \<Rightarrow> False | Some l \<Rightarrow> 0 \<le> l)"

definition pairedOnAxes :: "GraphWidget \<Rightarrow> bool" where
  "pairedOnAxes w =
     (length (left w) = 1 \<and> length (right w) = 1 \<and>
      nonNegative (lowerBound (leftYAxis w)) \<and> nonNegative (lowerBound (rightYAxis w)))"

subsection \<open>A deployment for the examples\<close>

definition exampleTokens :: Tokens where
  "exampleTokens =
     \<lparr> STACK_NAME = ''etl'', REGION = ''eu-west-1'', ACCOUNT_ID = ''123456789012'',
       PARTITION = ''aws'', bucketName = ''etl-bucket'', bucketArn = ''arn:aws:s3:::etl-bucket'',
       streamName = ''etl-InputStream-1'', kdaRole_roleArn = ''arn:aws:iam::123456789012:role/kda'',
       kdaApp_ref = ''etl'', instance_logicalId = ''ProducerInstance0'' \<rparr>"

definition successfulDeployment :: "Event list" where
  "successfulDeployment =
     [Signal ''consumerBuildSuccessWaitCondition'' True ''consumer built'',
      Begin ''Bucket'', Complete ''Bucket'',
      Begin ''InputStream'', Complete ''InputStream'',
      Begin ''KdaRole'', Complete ''KdaRole'',
      Begin ''KdaApplication'',
      Signal ''producerBuildSuccessWaitCondition'' True ''producer built'',
      Begin ''VPC'', Complete ''VPC'',
      Complete ''KdaApplication'',
      Begin ''SecurityGroup'', Complete ''SecurityGroup'',
      Begin ''ReplayRole'', Complete ''ReplayRole'',
      Begin ''ProducerInstance'', Complete ''ProducerInstance'']"

text \<open>An environment in which the start command fails (the application is already
  started) and every other command succeeds.\<close>

definition startFails :: "string \<Rightarrow> nat" where
  "startFails l = (if take 3 l = ''aws'' then 255 else 0)"

section \<open>Properties\<close>

subsection \<open>Readiness gate\<close>

lemma signal_terminal: "terminal g \<Longrightarrow> signal g success reason = (Inl AlreadySignaled, g)"
  by (simp add: signal_def)

lemma signal_waiting:
  "gateState g = WAITING \<Longrightarrow>
   signal g success reason =
     (Inr (), g\<lparr> gateState := (if success then SIGNALED_SUCCESS else SIGNALED_FAILURE),
                gateReason := reason \<rparr>)"
  by (simp add: signal_def terminal_def)

lemma signal_makes_terminal: "terminal (snd (signal g success reason))"
  by (simp add: signal_def terminal_def)

text \<open>
  C2: For every readiness gate and every pair of signal calls, the second call finds the gate
  in a terminal state, returns \<open>AlreadySignaled\<close> and leaves the gate as it was. When the
  gate was waiting before the pair, its final outcome is the outcome the first signal
  carried.
\<close>

theorem second_signal_rejected:
  assumes first: "signal g b1 r1 = (res1, g1)"
    and second: "signal g1 b2 r2 = (res2, g2)"
  shows "res2 = Inl AlreadySignaled \<and> g2 = g1 \<and>
         (gateState g = WAITING \<longrightarrow>
            res1 = Inr () \<and> await g2 = Some (outcomeOf b1) \<and> gateReason g2 = r1)"
proof -
  have "terminal g1"
    using signal_makes_terminal [of g b1 r1] first by simp
  then have rejected: "res2 = Inl AlreadySignaled \<and> g2 = g1"
    using signal_terminal [of g1 b2 r2] second by simp
  have "res1 = Inr () \<and> await g1 = Some (outcomeOf b1) \<and> gateReason g1 = r1"
    if "gateState g = WAITING"
    using signal_waiting [OF that, of b1 r1] first
    by (auto simp: await_def outcomeOf_def)
  with rejected show ?thesis by simp
qed

theorem second_signal_rejected_witness:
  "fst (signal (snd (signal (create ''consumerBuildSuccessWaitCondition'' 3600) True ''built''))
         False ''late'')
     = Inl AlreadySignaled \<and>
   snd (signal (snd (signal (create ''consumerBuildSuccessWaitCondition'' 3600) True ''built''))
         False ''late'')
     = snd (signal (create ''consumerBuildSuccessWaitCondition'' 3600) True ''built'') \<and>
   await (snd (signal (snd (signal (create ''consumerBuildSuccessWaitCondition'' 3600) True ''built''))
            False ''late''))
     = Some Success"
proof -
  let ?g = "create ''consumerBuildSuccessWaitCondition'' 3600"
  let ?s1 = "signal ?g True ''built''"
  let ?s2 = "signal (snd ?s1) False ''late''"
  have waiting: "gateState ?g = WAITING"
    by (simp add: create_def)
  have "fst ?s2 = Inl AlreadySignaled \<and> snd ?s2 = snd ?s1 \<and>
        (gateState ?g = WAITING \<longrightarrow>
           fst ?s1 = Inr () \<and> await (snd ?s2) = Some (outcomeOf True) \<and>
           gateReason (snd ?s2) = ''built'')"
    by (rule second_signal_rejected) simp_all
  with waiting have "fst ?s2 = Inl AlreadySignaled" and "snd ?s2 = snd ?s1"
    and "await (snd ?s2) = Some (outcomeOf True)"
    by blast+
  then show ?thesis
    by (simp only: outcomeOf_def if_True simp_thms)
qed

subsection \<open>Activation order\<close>

lemma signal_keeps_success:
  "gateState g = SIGNALED_SUCCESS \<Longrightarrow> gateState (snd (signal g b r)) = SIGNALED_SUCCESS"
  by (simp add: signal_def terminal_def)

lemma expire_keeps_success:
  "gateState g = SIGNALED_SUCCESS \<Longrightarrow> gateState (expire g) = SIGNALED_SUCCESS"
  by (simp add: expire_def terminal_def)

lemma begin_needs_dependency:
  "step deps s (Begin r) = Some s' \<Longrightarrow> d \<in> set (deps r) \<Longrightarrow> satisfied s d"
  by (auto simp: list_all_iff split: if_splits)

lemma step_keeps_ready:
  "step deps s e = Some s' \<Longrightarrow> status s r = Ready \<Longrightarrow> status s' r = Ready"
  by (cases e) (auto split: if_splits)

lemma step_keeps_gate_success:
  "step deps s e = Some s' \<Longrightarrow> gateState (gates s g) = SIGNALED_SUCCESS \<Longrightarrow>
   gateState (gates s' g) = SIGNALED_SUCCESS"
  by (cases e) (auto simp: signal_keeps_success expire_keeps_success split: if_splits)

lemma step_keeps_satisfied:
  "step deps s e = Some s' \<Longrightarrow> satisfied s d \<Longrightarrow> satisfied s' d"
  by (cases d) (auto dest: step_keeps_ready step_keeps_gate_success)

lemma step_begun:
  "step deps s e = Some s' \<Longrightarrow> begun (status s' r) \<Longrightarrow> begun (status s r) \<or> e = Begin r"
  by (cases e) (auto split: if_splits)

lemma step_respects_dependency:
  assumes "step deps s e = Some s'" and "d \<in> set (deps r)"
    and "begun (status s r) \<longrightarrow> satisfied s d"
  shows "begun (status s' r) \<longrightarrow> satisfied s' d"
proof
  assume "begun (status s' r)"
  then consider "begun (status s r)" | "e = Begin r"
    using step_begun [OF assms(1)] by blast
  then have "satisfied s d"
  proof cases
    case 1
    with assms(3) show ?thesis by simp
  next
    case 2
    with assms(1,2) show ?thesis by (simp add: begin_needs_dependency)
  qed
  with assms(1) show "satisfied s' d" by (rule step_keeps_satisfied)
qed

lemma run_respects_dependency:
  "run deps s evs = Some s' \<Longrightarrow> d \<in> set (deps r) \<Longrightarrow>
   (begun (status s r) \<longrightarrow> satisfied s d) \<Longrightarrow> begun (status s' r) \<longrightarrow> satisfied s' d"
proof (induction evs arbitrary: s)
  case Nil
  then show ?case by simp
next
  case (Cons e evs)
  then obtain s1 where 1: "step deps s e = Some s1" and 2: "run deps s1 evs = Some s'"
    by (auto split: option.splits)
  from step_respects_dependency [OF 1 Cons.prems(2,3)] Cons.IH [OF 2 Cons.prems(2)]
  show ?case by blast
qed

lemma run_append:
  "run deps s (xs @ ys) = (case run deps s xs of None \<Rightarrow> None | Some s' \<Rightarrow> run deps s' ys)"
  by (induction xs arbitrary: s) (auto split: option.splits)

lemma step_ready:
  "step deps s e = Some s' \<Longrightarrow> status s' r = Ready \<Longrightarrow> status s r = Ready \<or> e = Complete r"
  by (cases e) (auto split: if_splits)

lemma run_ready_completed:
  "run deps s evs = Some s' \<Longrightarrow> status s' r = Ready \<Longrightarrow> status s r \<noteq> Ready \<Longrightarrow>
   Complete r \<in> set evs"
proof (induction evs arbitrary: s)
  case Nil
  then show ?case by simp
next
  case (Cons e evs)
  then obtain s1 where 1: "step deps s e = Some s1" and 2: "run deps s1 evs = Some s'"
    by (auto split: option.splits)
  show ?case
  proof (cases "status s1 r = Ready")
    case True
    with step_ready [OF 1, of r] Cons.prems(3) show ?thesis by auto
  next
    case False
    from Cons.IH [OF 2 Cons.prems(2) False] show ?thesis by simp
  qed
qed

lemma initial_pending: "status (initial t) r = Pending"
  by (simp add: initial_def)

lemma stack_deps: "stack_dependencies (StreamingEtl ident props tok) = dependencies"
  by (simp add: StreamingEtl_def)

lemma app_gate: "OnGate ''consumerBuildSuccessWaitCondition'' \<in> set (dependencies ''KdaApplication'')"
  by (simp add: dependencies_def lookupList_def dependsOn_def)

lemma instance_gate: "OnGate ''producerBuildSuccessWaitCondition'' \<in> set (dependencies ''ProducerInstance'')"
  by (simp add: dependencies_def lookupList_def dependsOn_def)

lemma instance_app: "OnResource ''KdaApplication'' \<in> set (dependencies ''ProducerInstance'')"
  by (simp add: dependencies_def lookupList_def dependsOn_def references_def)

text \<open>
  C1: In every run of the engine on the stack's dependency edges, from a state with every
  gate waiting and every resource Pending: whenever the Stream Processing Application
  (KdaApplication) has begun activation, its code-artifact gate is SIGNALED_SUCCESS; whenever
  the Producer Instance has begun activation, its client-artifact gate is SIGNALED_SUCCESS
  and the Application is Ready; and in a run that ends with the Instance Ready, the
  completion of the Application occurs before the completion of the Instance.
\<close>

theorem gated_activation_order:
  assumes "run (stack_dependencies (StreamingEtl ident props tok)) (initial timeouts) evs = Some s"
  shows "(begun (status s ''KdaApplication'') \<longrightarrow>
            gateState (gates s ''consumerBuildSuccessWaitCondition'') = SIGNALED_SUCCESS) \<and>
         (begun (status s ''ProducerInstance'') \<longrightarrow>
            gateState (gates s ''producerBuildSuccessWaitCondition'') = SIGNALED_SUCCESS \<and>
            status s ''KdaApplication'' = Ready) \<and>
         (status s ''ProducerInstance'' = Ready \<longrightarrow>
            (\<exists>pre post. evs = pre @ Complete ''ProducerInstance'' # post \<and>
               Complete ''KdaApplication'' \<in> set pre))"
proof -
  let ?I = "initial timeouts"
  have inv: "begun (status s' r) \<longrightarrow> satisfied s' d"
    if "run dependencies ?I es = Some s'" and "d \<in> set (dependencies r)" for es s' r d
    using run_respects_dependency [OF that] by (simp add: initial_pending)
  have r: "run dependencies ?I evs = Some s"
    using assms by (simp add: stack_deps)
  have "Complete ''KdaApplication'' \<in> set pre"
    if split: "evs = pre @ Complete ''ProducerInstance'' # post" for pre post
  proof -
    from r split obtain s1 where pre: "run dependencies ?I pre = Some s1"
      and next_step: "step dependencies s1 (Complete ''ProducerInstance'') \<noteq> None"
      by (auto simp: run_append split: option.splits)
    from next_step have "begun (status s1 ''ProducerInstance'')"
      by (auto split: if_splits)
    with inv [OF pre instance_app] have "status s1 ''KdaApplication'' = Ready"
      by simp
    with pre show ?thesis
      by (rule run_ready_completed) (simp add: initial_pending)
  qed
  moreover have "Complete ''ProducerInstance'' \<in> set evs"
    if "status s ''ProducerInstance'' = Ready"
    using r that by (rule run_ready_completed) (simp add: initial_pending)
  ultimately have order: "status s ''ProducerInstance'' = Ready \<longrightarrow>
      (\<exists>pre post. evs = pre @ Complete ''ProducerInstance'' # post \<and>
         Complete ''KdaApplication'' \<in> set pre)"
    by (meson split_list)
  from inv [OF r app_gate] inv [OF r instance_gate] inv [OF r instance_app] order
  show ?thesis by simp
qed

theorem gated_activation_order_witness:
  "\<exists>s. run (stack_dependencies (StreamingEtl ''StreamingEtl'' None exampleTokens))
          (initial (\<lambda>g. 3600)) successfulDeployment = Some s \<and>
        status s ''ProducerInstance'' = Ready \<and>
        status s ''KdaApplication'' = Ready \<and>
        gateState (gates s ''consumerBuildSuccessWaitCondition'') = SIGNALED_SUCCESS \<and>
        gateState (gates s ''producerBuildSuccessWaitCondition'') = SIGNALED_SUCCESS \<and>
        (\<exists>pre post. successfulDeployment = pre @ Complete ''ProducerInstance'' # post \<and>
           Complete ''KdaApplication'' \<in> set pre)"
proof -
  have "\<exists>s. run (stack_dependencies (StreamingEtl ''StreamingEtl'' None exampleTokens))
          (initial (\<lambda>g. 3600)) successfulDeployment = Some s \<and>
        status s ''ProducerInstance'' = Ready"
    by (simp add: stack_deps successfulDeployment_def initial_def create_def signal_def
        terminal_def dependencies_def lookupList_def dependsOn_def references_def)
  then obtain s where
    r: "run (stack_dependencies (StreamingEtl ''StreamingEtl'' None exampleTokens))
          (initial (\<lambda>g. 3600)) successfulDeployment = Some s"
    and ready: "status s ''ProducerInstance'' = Ready"
    by blast
  from gated_activation_order [OF r] ready r show ?thesis
    by auto
qed

subsection \<open>Artifact store\<close>

text \<open>
  C8: For every deployment, the bucket is versioned, declares the removal policy DESTROY
  explicitly (so it is not retained under the default policy), has the construct that empties
  it on deletion declared on it, and has exactly one lifecycle rule, which aborts incomplete
  multipart uploads after 7 days.
\<close>

theorem artifact_store_configuration:
  "versioned (stack_bucket (StreamingEtl ident props tok)) = Some True \<and>
   removalPolicy (stack_bucket (StreamingEtl ident props tok)) = Some DESTROY \<and>
   effectiveRemovalPolicy (stack_bucket (StreamingEtl ident props tok)) = DESTROY \<and>
   empty_bucket (stack_emptyBucket (StreamingEtl ident props tok))
     = stack_bucket (StreamingEtl ident props tok) \<and>
   lifecycleRules (stack_bucket (StreamingEtl ident props tok))
     = [\<lparr> abortIncompleteMultipartUploadAfter = Some (Days 7) \<rparr>] \<and>
   map (map_option toSeconds \<circ> abortIncompleteMultipartUploadAfter)
       (lifecycleRules (stack_bucket (StreamingEtl ident props tok)))
     = [Some (7 * 24 * 60 * 60)]"
  by (simp add: StreamingEtl_def bucket_def EmptyBucket_def effectiveRemovalPolicy_def)

subsection \<open>Checkpoint policy\<close>





subsection \<open>Configuration surface\<close>

lemma options_fixed:
  "optShardCount (StreamingEtl ident props tok) = Some 16"
  "optCheckpointInterval (StreamingEtl ident props tok) = Some 60000"
  "optMinimumPause (StreamingEtl ident props tok) = Some 60000"
  "optParallelism (StreamingEtl ident props tok) = 2"
  "optLogLevel (StreamingEtl ident props tok) = ''INFO''"
  "optMetricsLevel (StreamingEtl ident props tok) = ''TASK''"
  "optSnapshotsEnabled (StreamingEtl ident props tok) = False"
  by (simp_all add: optShardCount_def optCheckpointInterval_def optMinimumPause_def
      optParallelism_def optLogLevel_def optMetricsLevel_def optSnapshotsEnabled_def
      flinkConfiguration_def StreamingEtl_def stream_def kdaApp_def kdaAppWith_def checkpointConfiguration_110_def)

text \<open>
  C5 (as amended): The deployed topology uses the documented values: shard count 16,
  checkpoint interval 60 s (60000 ms), minimum checkpoint pause 60 s (60000 ms), parallelism 2,
  monitoring verbosity INFO, metrics granularity TASK, snapshot-on-update disabled. They are
  literals of the stack: every deployment, whatever the stack id, the props and the resolved
  names, gets these same values.
\<close>

theorem configuration_defaults_fixed:
  "optShardCount (StreamingEtl ident props tok) = Some 16 \<and>
   optCheckpointInterval (StreamingEtl ident props tok) = Some (60 * 1000) \<and>
   optMinimumPause (StreamingEtl ident props tok) = Some (60 * 1000) \<and>
   optParallelism (StreamingEtl ident props tok) = 2 \<and>
   optLogLevel (StreamingEtl ident props tok) = ''INFO'' \<and>
   optMetricsLevel (StreamingEtl ident props tok) = ''TASK'' \<and>
   optSnapshotsEnabled (StreamingEtl ident props tok) = False"
  by (simp add: options_fixed)

text \<open>
  C5 (as stated) asks that every one of these options be overridable per deployment. None
  is: no two deployments of the stack differ in any of them.
\<close>

theorem options_not_overridable:
  "\<not> overridable optShardCount \<and>
   \<not> overridable optCheckpointInterval \<and>
   \<not> overridable optMinimumPause \<and>
   \<not> overridable optParallelism \<and>
   \<not> overridable optLogLevel \<and>
   \<not> overridable optMetricsLevel \<and>
   \<not> overridable optSnapshotsEnabled"
  by (simp add: overridable_def options_fixed)

subsection \<open>Instance bootstrap\<close>

lemma scan_append:
  "scan q (xs @ ys) = (case scan q xs of None \<Rightarrow> None | Some q' \<Rightarrow> scan q' ys)"
  by (induction q xs rule: scan.induct) auto

lemma scan_name:
  "list_all nameChar s \<Longrightarrow> q \<noteq> AfterDollar \<Longrightarrow> scan q s = Some q"
  by (induction q s rule: scan.induct) (auto simp: nameChar_def metaChars_def)

lemma classify_install: "classify installCommand = Command"
  by (simp add: classify_def installCommand_def isBlank_def reservedWords_def metaChars_def)

lemma classify_start:
  assumes "shellSafe tok"
  shows "classify (startCommand tok) = Command"
proof -
  have names: "list_all nameChar (REGION tok)" "list_all nameChar (kdaApp_ref tok)"
    using assms by (simp_all add: shellSafe_def)
  have "scan Unquoted (startCommand tok) = Some Unquoted"
    by (simp add: startCommand_def scan_append scan_name [OF names(1)] scan_name [OF names(2)]
        metaChars_def)
  then show ?thesis
    by (simp add: classify_def startCommand_def isBlank_def reservedWords_def)
qed

lemma classify_copy:
  assumes "shellSafe tok"
  shows "classify (copyCommand tok) = Command"
proof -
  have names: "list_all nameChar (bucketName tok)"
    using assms by (simp add: shellSafe_def)
  have "scan Unquoted (copyCommand tok) = Some Unquoted"
    by (simp add: copyCommand_def replayCopyCommand_def scan_append scan_name [OF names]
        metaChars_def)
  then show ?thesis
    by (simp add: classify_def copyCommand_def isBlank_def reservedWords_def)
qed

lemma classify_signal:
  assumes "shellSafe tok"
  shows "classify (signalCommand tok) = Command"
proof -
  have names: "list_all nameChar (STACK_NAME tok)" "list_all nameChar (instance_logicalId tok)"
    "list_all nameChar (REGION tok)"
    using assms by (simp_all add: shellSafe_def)
  have "scan Unquoted (signalCommand tok) = Some Unquoted"
    by (simp add: signalCommand_def scan_append scan_name [OF names(1)] scan_name [OF names(2)]
        scan_name [OF names(3)] metaChars_def)
  then show ?thesis
    by (simp add: classify_def signalCommand_def isBlank_def reservedWords_def)
qed

lemma boot_script:
  "bootScript tok =
     [''#!/bin/bash'', installCommand, startCommand tok, copyCommand tok, signalCommand tok]"
  by (simp add: bootScript_def store_212_def store_193_def instance_def addCommands_def
      forLinux_def render_def)

lemma boot_trace:
  assumes "shellSafe tok"
  shows "runScript exit (bootScript tok) =
     Inr [(installCommand, 0),
          (startCommand tok, exit installCommand),
          (copyCommand tok, exit (startCommand tok)),
          (signalCommand tok, exit (copyCommand tok))]"
  by (simp add: runScript_def boot_script classify_install classify_start [OF assms]
      classify_copy [OF assms] classify_signal [OF assms])

lemma example_names:
  "REGION exampleTokens = ''eu-west-1''" "STACK_NAME exampleTokens = ''etl''"
  "bucketName exampleTokens = ''etl-bucket''" "kdaApp_ref exampleTokens = ''etl''"
  "instance_logicalId exampleTokens = ''ProducerInstance0''"
  by (simp_all add: exampleTokens_def)

lemma example_safe: "shellSafe exampleTokens"
  by (simp add: shellSafe_def exampleTokens_def nameChar_def metaChars_def)

lemma command_texts:
  \<open>installCommand = ''yum install -y tmux jq java-11-amazon-corretto-headless''\<close>
  \<open>startCommand tok =
     ''aws --region '' @ REGION tok
        @ '' kinesisanalyticsv2 start-application --application-name '' @ kdaApp_ref tok
        @ '' --run-configuration '{ "ApplicationRestoreConfiguration": { "ApplicationRestoreType": "SKIP_RESTORE_FROM_SNAPSHOT" } }''
        @ [CHR 0x27]\<close>
  \<open>copyCommand tok =
     ''su ssm-user -l -c "aws s3 cp --recursive --no-progress --exclude '*' --include 'amazon-kinesis-replay-*.jar' 's3://''
        @ bucketName tok @ ''/target/' ."''\<close>
  \<open>signalCommand tok =
     ''/opt/aws/bin/cfn-signal -e $? --stack '' @ STACK_NAME tok
        @ '' --resource '' @ instance_logicalId tok @ '' --region '' @ REGION tok\<close>
  by (simp_all add: installCommand_def startCommand_def copyCommand_def replayCopyCommand_def
      signalCommand_def)

text \<open>
  C6: For every deployment (with names that mean nothing to the shell), the boot script of
  the Producer Instance is the shebang line followed by exactly four command lines, and
  running it executes exactly these four steps in this order, whatever exit status each step
  ends with (so also when the start command fails on an application that is already
  started): \<open>yum install\<close> of the runtime dependencies; \<open>aws kinesisanalyticsv2
  start-application\<close> for the Stream Processing Application; \<open>aws s3 cp\<close> of the replay
  artifact from the bucket, as \<open>ssm-user\<close>; \<open>cfn-signal -e $?\<close> to the stack for the instance
  resource.
\<close>

theorem bootstrap_steps_in_order:
  assumes "shellSafe tok"
  shows \<open>stack_bootScript (StreamingEtl ident props tok) =
     [''#!/bin/bash'',
      ''yum install -y tmux jq java-11-amazon-corretto-headless'',
      ''aws --region '' @ REGION tok
        @ '' kinesisanalyticsv2 start-application --application-name '' @ kdaApp_ref tok
        @ '' --run-configuration '{ "ApplicationRestoreConfiguration": { "ApplicationRestoreType": "SKIP_RESTORE_FROM_SNAPSHOT" } }''
        @ [CHR 0x27],
      ''su ssm-user -l -c "aws s3 cp --recursive --no-progress --exclude '*' --include 'amazon-kinesis-replay-*.jar' 's3://''
        @ bucketName tok @ ''/target/' ."'',
      ''/opt/aws/bin/cfn-signal -e $? --stack '' @ STACK_NAME tok
        @ '' --resource '' @ instance_logicalId tok @ '' --region '' @ REGION tok] \<and>
   map_sum id (map fst) (runScript exit (stack_bootScript (StreamingEtl ident props tok))) =
     Inr [''yum install -y tmux jq java-11-amazon-corretto-headless'',
          ''aws --region '' @ REGION tok
        @ '' kinesisanalyticsv2 start-application --application-name '' @ kdaApp_ref tok
        @ '' --run-configuration '{ "ApplicationRestoreConfiguration": { "ApplicationRestoreType": "SKIP_RESTORE_FROM_SNAPSHOT" } }''
        @ [CHR 0x27],
          ''su ssm-user -l -c "aws s3 cp --recursive --no-progress --exclude '*' --include 'amazon-kinesis-replay-*.jar' 's3://''
        @ bucketName tok @ ''/target/' ."'',
          ''/opt/aws/bin/cfn-signal -e $? --stack '' @ STACK_NAME tok
        @ '' --resource '' @ instance_logicalId tok @ '' --region '' @ REGION tok]\<close>
proof -
  have "stack_bootScript (StreamingEtl ident props tok) = bootScript tok"
    by (simp add: StreamingEtl_def)
  then show ?thesis
    using boot_script [of tok, unfolded command_texts]
      boot_trace [OF assms, of exit, unfolded command_texts]
    by simp
qed

theorem bootstrap_steps_in_order_witness:
  \<open>map_sum id (map fst)
     (runScript startFails (stack_bootScript (StreamingEtl ''StreamingEtl'' None exampleTokens))) =
   Inr [''yum install -y tmux jq java-11-amazon-corretto-headless'',
        ''aws --region eu-west-1 kinesisanalyticsv2 start-application --application-name etl --run-configuration '{ "ApplicationRestoreConfiguration": { "ApplicationRestoreType": "SKIP_RESTORE_FROM_SNAPSHOT" } }'' @ [CHR 0x27],
        ''su ssm-user -l -c "aws s3 cp --recursive --no-progress --exclude '*' --include 'amazon-kinesis-replay-*.jar' 's3://etl-bucket/target/' ."'',
        ''/opt/aws/bin/cfn-signal -e $? --stack etl --resource ProducerInstance0 --region eu-west-1'']\<close>
  using bootstrap_steps_in_order
          [OF example_safe, where ident = "''StreamingEtl''" and props = None and exit = startFails,
           THEN conjunct2]
  by (simp add: example_names)

text \<open>
  C7: Failure of the start-command step does not keep the artifact-copy step from running.
  Every line of the boot script after the shebang is a simple command (no \<open>set -e\<close>, no
  \<open>exit\<close>, no control operator), and whatever exit status \<open>n\<close> the start command ends with,
  the first three steps executed are the install, start and copy commands, the copy command
  starting with \<open>n\<close> as the status before it.
\<close>

theorem copy_runs_whatever_start_returns:
  assumes "shellSafe tok"
  shows \<open>list_all (\<lambda>l. classify l = Command) (tl (stack_bootScript (StreamingEtl ident props tok))) \<and>
   (\<exists>tr. runScript
           (exit(''aws --region '' @ REGION tok
        @ '' kinesisanalyticsv2 start-application --application-name '' @ kdaApp_ref tok
        @ '' --run-configuration '{ "ApplicationRestoreConfiguration": { "ApplicationRestoreType": "SKIP_RESTORE_FROM_SNAPSHOT" } }''
        @ [CHR 0x27] := n))
           (stack_bootScript (StreamingEtl ident props tok)) = Inr tr \<and>
         take 3 tr =
           [(''yum install -y tmux jq java-11-amazon-corretto-headless'', 0),
            (''aws --region '' @ REGION tok
        @ '' kinesisanalyticsv2 start-application --application-name '' @ kdaApp_ref tok
        @ '' --run-configuration '{ "ApplicationRestoreConfiguration": { "ApplicationRestoreType": "SKIP_RESTORE_FROM_SNAPSHOT" } }''
        @ [CHR 0x27],
             exit ''yum install -y tmux jq java-11-amazon-corretto-headless''),
            (''su ssm-user -l -c "aws s3 cp --recursive --no-progress --exclude '*' --include 'amazon-kinesis-replay-*.jar' 's3://''
        @ bucketName tok @ ''/target/' ."'', n)])\<close>
proof -
  have script: "stack_bootScript (StreamingEtl ident props tok) = bootScript tok"
    by (simp add: StreamingEtl_def)
  have simple: "list_all (\<lambda>l. classify l = Command) (tl (bootScript tok))"
    by (simp add: boot_script classify_install classify_start [OF assms]
        classify_copy [OF assms] classify_signal [OF assms])
  show ?thesis
    using simple boot_trace [OF assms, of "exit(startCommand tok := n)", unfolded command_texts]
    by (simp add: script)
qed

theorem copy_runs_whatever_start_returns_witness:
  \<open>\<exists>tr. runScript ((\<lambda>l. 0)(''aws --region eu-west-1 kinesisanalyticsv2 start-application --application-name etl --run-configuration '{ "ApplicationRestoreConfiguration": { "ApplicationRestoreType": "SKIP_RESTORE_FROM_SNAPSHOT" } }'' @ [CHR 0x27] := 255))
          (stack_bootScript (StreamingEtl ''StreamingEtl'' None exampleTokens))
          = Inr tr \<and>
        take 3 tr =
          [(''yum install -y tmux jq java-11-amazon-corretto-headless'', 0),
           (''aws --region eu-west-1 kinesisanalyticsv2 start-application --application-name etl --run-configuration '{ "ApplicationRestoreConfiguration": { "ApplicationRestoreType": "SKIP_RESTORE_FROM_SNAPSHOT" } }'' @ [CHR 0x27], 0),
           (''su ssm-user -l -c "aws s3 cp --recursive --no-progress --exclude '*' --include 'amazon-kinesis-replay-*.jar' 's3://etl-bucket/target/' ."'', 255)]\<close>
  using copy_runs_whatever_start_returns
          [OF example_safe, where ident = "''StreamingEtl''" and props = None
             and exit = "\<lambda>l. 0" and n = 255,
           THEN conjunct2]
  by (simp add: example_names)

text \<open>
  C9: The completion signal runs right after the copy step and passes \<open>$?\<close> as its exit code
  argument, which there is the exit status of the copy step: the run ends with the copy
  command followed by the \<open>cfn-signal -e $?\<close> command whose \<open>$?\<close> is the exit status of the
  copy command, under every assignment of exit statuses. So the status of the start command
  never reaches the signal; with a start command that fails and a copy that succeeds the
  signal reports 0.
\<close>

theorem signal_reports_copy_status:
  assumes "shellSafe tok"
  shows \<open>\<exists>tr. runScript exit (stack_bootScript (StreamingEtl ident props tok)) = Inr tr \<and>
     drop 2 tr =
       [(''su ssm-user -l -c "aws s3 cp --recursive --no-progress --exclude '*' --include 'amazon-kinesis-replay-*.jar' 's3://''
        @ bucketName tok @ ''/target/' ."'',
         exit (''aws --region '' @ REGION tok
        @ '' kinesisanalyticsv2 start-application --application-name '' @ kdaApp_ref tok
        @ '' --run-configuration '{ "ApplicationRestoreConfiguration": { "ApplicationRestoreType": "SKIP_RESTORE_FROM_SNAPSHOT" } }''
        @ [CHR 0x27])),
        (''/opt/aws/bin/cfn-signal -e $? --stack '' @ STACK_NAME tok
        @ '' --resource '' @ instance_logicalId tok @ '' --region '' @ REGION tok,
         exit (''su ssm-user -l -c "aws s3 cp --recursive --no-progress --exclude '*' --include 'amazon-kinesis-replay-*.jar' 's3://''
        @ bucketName tok @ ''/target/' ."''))]\<close>
proof -
  have "stack_bootScript (StreamingEtl ident props tok) = bootScript tok"
    by (simp add: StreamingEtl_def)
  then show ?thesis
    using boot_trace [OF assms, of exit, unfolded command_texts]
    by simp
qed

theorem signal_reports_copy_status_witness:
  \<open>\<exists>tr. runScript startFails (stack_bootScript (StreamingEtl ''StreamingEtl'' None exampleTokens))
          = Inr tr \<and>
        drop 2 tr =
          [(''su ssm-user -l -c "aws s3 cp --recursive --no-progress --exclude '*' --include 'amazon-kinesis-replay-*.jar' 's3://etl-bucket/target/' ."'', 255),
           (''/opt/aws/bin/cfn-signal -e $? --stack etl --resource ProducerInstance0 --region eu-west-1'', 0)]\<close>
  using signal_reports_copy_status
          [OF example_safe, where ident = "''StreamingEtl''" and props = None and exit = startFails]
  by (simp add: example_names startFails_def)


subsection \<open>Security group\<close>

text \<open>
  C10: For every deployment, the security group of the Producer Instance has exactly two
  ingress rules, TCP port 22 from any IPv4 address and all traffic from the group itself;
  so it admits a TCP packet to port 22 from any source, and any packet from a member of the
  same group.
\<close>

theorem security_group_ingress:
  "securityGroup (stack_instance (StreamingEtl ident props tok)) = stack_sg (StreamingEtl ident props tok) \<and>
   ingressRules (stack_sg (StreamingEtl ident props tok)) =
     [(anyIpv4, tcp 22),
      (SecurityGroupPeer (sg_id (stack_sg (StreamingEtl ident props tok))), allTraffic)] \<and>
   admits (stack_sg (StreamingEtl ident props tok))
     \<lparr> fromGroups = groups, packetProtocol = TCP, packetPort = 22 \<rparr> \<and>
   admits (stack_sg (StreamingEtl ident props tok))
     \<lparr> fromGroups = sg_id (stack_sg (StreamingEtl ident props tok)) # groups,
       packetProtocol = proto, packetPort = port \<rparr>"
  by (simp add: StreamingEtl_def instance_def sg_def addIngressRule_def admits_def
      portMatches_def tcp_def allTraffic_def)

subsection \<open>Dashboard\<close>

lemma dashboard_widgets:
  "widgets (dashboard tok) =
     [\<lparr> left = [incomingRecords tok], right = [incomingBytes tok], width = 24,
        title = ''Kinesis data stream (incoming)'',
        leftYAxis = Some min0, rightYAxis = Some min0 \<rparr>,
      \<lparr> left = [outgoingRecords tok], right = [outgoingBytes tok], width = 24,
        title = ''Kinesis data stream (outgoing)'',
        leftYAxis = Some min0, rightYAxis = Some min0 \<rparr>,
      \<lparr> left = [millisBehindLatest tok, with_statistic (millisBehindLatest tok) ''avg''],
        right = [], width = 24,
        title = ''Flink consumer lag'',
        leftYAxis = Some \<lparr> axis_label = Some ''milliseconds'', showUnits = Some False,
                           axis_min = Some 0 \<rparr>,
        rightYAxis = None \<rparr>,
      \<lparr> left = [putRequests tok], right = [bytesUploaded tok], width = 24,
        title = ''Amazon S3 (incoming)'',
        leftYAxis = Some min0, rightYAxis = Some min0 \<rparr>]"
  by (simp add: dashboard_def addWidgets_def)

lemmas metric_defs = incomingRecords_def incomingBytes_def outgoingRecords_def outgoingBytes_def
  millisBehindLatest_def bytesUploaded_def putRequests_def with_statistic_def

text \<open>
  C4: For every deployment (every resolved stream, application and bucket name), the dashboard
  has exactly 4 widgets in the order inbound throughput, outbound throughput, consumer lag,
  storage-sink throughput. The widgets plotting two distinct metrics (the first, second and
  fourth) each put one metric on the left axis and one on the right axis, with an explicit
  non-negative lower bound on both axes. The consumer-lag widget plots one metric,
  millisBehindLatest, twice: with the statistic max and, as a copy differing in the statistic
  only, with the statistic avg; its axis has a non-negative lower bound.
\<close>

theorem dashboard_composition:
  "length (widgets (stack_dashboard (StreamingEtl ident props tok))) = 4 \<and>
   map title (widgets (stack_dashboard (StreamingEtl ident props tok))) =
     [''Kinesis data stream (incoming)'', ''Kinesis data stream (outgoing)'',
      ''Flink consumer lag'', ''Amazon S3 (incoming)''] \<and>
   map (\<lambda>w. (map metricName (left w), map metricName (right w)))
       (widgets (stack_dashboard (StreamingEtl ident props tok))) =
     [([''IncomingRecords''], [''IncomingBytes'']),
      ([''GetRecords.Records''], [''GetRecords.Bytes'']),
      ([''millisBehindLatest'', ''millisBehindLatest''], []),
      ([''PutRequests''], [''BytesUploaded''])] \<and>
   map (\<lambda>w. length (metricNames w)) (widgets (stack_dashboard (StreamingEtl ident props tok))) =
     [2, 2, 1, 2] \<and>
   list_all pairedOnAxes
     (filter (\<lambda>w. length (metricNames w) = 2) (widgets (stack_dashboard (StreamingEtl ident props tok)))) \<and>
   left (widgets (stack_dashboard (StreamingEtl ident props tok)) ! 2) =
     [millisBehindLatest tok, (millisBehindLatest tok)\<lparr> statistic := ''avg'' \<rparr>] \<and>
   statistic (millisBehindLatest tok) = ''max'' \<and>
   metricName (millisBehindLatest tok) = ''millisBehindLatest'' \<and>
   nonNegative (lowerBound (leftYAxis (widgets (stack_dashboard (StreamingEtl ident props tok)) ! 2)))"
  by (simp add: StreamingEtl_def dashboard_widgets metric_defs metricNames_def pairedOnAxes_def
      nonNegative_def lowerBound_def min0_def)

end
